theory Spec2Isabelle
  imports Main "HOL-Library.Word"
begin

unbundle bit_operations_syntax

section \<open>Data model of the packet capture\<close>

type_synonym byte = "8 word"

text \<open>
  The direction tag of a record. The trace layout fixes
  0 = client-to-server and 1 = server-to-client, so the zero value of the Go type is
  \<open>DirClientToServer\<close>.
\<close>

datatype Direction = DirClientToServer | DirServerToClient

text \<open>
  \<open>pcap.PacketRecord\<close> as the sources construct it (\<open>RecordingConn.record\<close>, the tests):
  an int64 timestamp, a direction, a uint16 opcode and the raw payload bytes.
\<close>

record PacketRecord =
  TimestampNs :: "64 word"
  Direction :: Direction
  Opcode :: "16 word"
  Payload :: "byte list"

text \<open>The Go zero value \<open>pcap.PacketRecord{}\<close>; a nil slice has length 0.\<close>

definition zero_PacketRecord :: PacketRecord where
  "zero_PacketRecord =
     \<lparr>TimestampNs = 0, Direction = DirClientToServer, Opcode = 0, Payload = []\<rparr>"

text \<open>
  Modelled from the spec: \<open>pcap.FilterByDirection\<close> is called by \<open>ComparePackets\<close> but its
  body is not among the sources. The specification says that the comparator filters a
  sequence to the records of one direction, preserving their relative order.
\<close>

definition FilterByDirection :: "PacketRecord list \<Rightarrow> Direction \<Rightarrow> PacketRecord list" where
  "FilterByDirection records dir = filter (\<lambda>r. Direction r = dir) records"

section \<open>The comparator (cmd/replay/compare.go)\<close>

text \<open>
  \<open>PacketDiff\<close>: \<open>Actual\<close> is a pointer in the source, nil when no response was received.
  \<open>Index\<close> is a slice index, hence never negative; \<open>SizeDelta\<close> is a signed difference
  of two slice lengths.
\<close>

record PacketDiff =
  Index :: nat
  Expected :: PacketRecord
  Actual :: "PacketRecord option"
  OpcodeMismatch :: bool
  SizeDelta :: int

text \<open>
  The first loop of \<open>ComparePackets\<close>, \<open>for i, exp := range expectedS2C\<close>: the running
  index, the part of \<open>expectedS2C\<close> still to visit, the whole of \<open>actualS2C\<close> and the
  diffs appended so far. Fields a struct literal leaves out take their zero value.
\<close>

fun compare_loop ::
  "nat \<Rightarrow> PacketRecord list \<Rightarrow> PacketRecord list \<Rightarrow> PacketDiff list \<Rightarrow> PacketDiff list" where
  "compare_loop i [] actualS2C diffs = diffs"
| "compare_loop i (exp # rest) actualS2C diffs =
     (if i \<ge> length actualS2C then
        compare_loop (Suc i) rest actualS2C
          (diffs @ [\<lparr>Index = i, Expected = exp, Actual = None,
                     OpcodeMismatch = False, SizeDelta = 0\<rparr>])
      else
        (let act = actualS2C ! i in
         if Opcode exp \<noteq> Opcode act then
           compare_loop (Suc i) rest actualS2C
             (diffs @ [\<lparr>Index = i, Expected = exp, Actual = Some act,
                        OpcodeMismatch = True, SizeDelta = 0\<rparr>])
         else if length (Payload exp) \<noteq> length (Payload act) then
           compare_loop (Suc i) rest actualS2C
             (diffs @ [\<lparr>Index = i, Expected = exp, Actual = Some act,
                        OpcodeMismatch = False,
                        SizeDelta = int (length (Payload act)) - int (length (Payload exp))\<rparr>])
         else compare_loop (Suc i) rest actualS2C diffs))"

text \<open>
  The second loop, \<open>for i := len(expectedS2C); i < len(actualS2C); i++\<close>: the actual
  packets beyond the expected ones.
\<close>

function extras_loop :: "nat \<Rightarrow> PacketRecord list \<Rightarrow> PacketDiff list \<Rightarrow> PacketDiff list" where
  "extras_loop i actualS2C diffs =
     (if i < length actualS2C then
        extras_loop (Suc i) actualS2C
          (diffs @ [\<lparr>Index = i, Expected = zero_PacketRecord, Actual = Some (actualS2C ! i),
                     OpcodeMismatch = False, SizeDelta = 0\<rparr>])
      else diffs)"
  by pat_completeness auto
termination
  by (relation "measure (\<lambda>(i, actualS2C, diffs). length actualS2C - i)") auto

declare extras_loop.simps [simp del]

definition ComparePackets :: "PacketRecord list \<Rightarrow> PacketRecord list \<Rightarrow> PacketDiff list" where
  "ComparePackets expected actual =
     (let expectedS2C = FilterByDirection expected DirServerToClient;
          actualS2C = FilterByDirection actual DirServerToClient;
          diffs = compare_loop 0 expectedS2C actualS2C []
      in extras_loop (length expectedS2C) actualS2C diffs)"

text \<open>
  Three abbreviations for the proofs. \<open>compare_step\<close> is what one iteration of the first
  loop appends at index \<open>i\<close> (nothing, or one diff); \<open>extra_diff\<close> is the diff the second
  loop appends at index \<open>i\<close>; \<open>positional\<close> collects the iterations of the first loop.
\<close>

definition compare_step :: "PacketRecord list \<Rightarrow> nat \<Rightarrow> PacketRecord \<Rightarrow> PacketDiff list" where
  "compare_step actualS2C i exp =
     (if i \<ge> length actualS2C then
        [\<lparr>Index = i, Expected = exp, Actual = None, OpcodeMismatch = False, SizeDelta = 0\<rparr>]
      else if Opcode exp \<noteq> Opcode (actualS2C ! i) then
        [\<lparr>Index = i, Expected = exp, Actual = Some (actualS2C ! i),
          OpcodeMismatch = True, SizeDelta = 0\<rparr>]
      else if length (Payload exp) \<noteq> length (Payload (actualS2C ! i)) then
        [\<lparr>Index = i, Expected = exp, Actual = Some (actualS2C ! i), OpcodeMismatch = False,
          SizeDelta = int (length (Payload (actualS2C ! i))) - int (length (Payload exp))\<rparr>]
      else [])"

definition extra_diff :: "PacketRecord list \<Rightarrow> nat \<Rightarrow> PacketDiff" where
  "extra_diff actualS2C i =
     \<lparr>Index = i, Expected = zero_PacketRecord, Actual = Some (actualS2C ! i),
      OpcodeMismatch = False, SizeDelta = 0\<rparr>"

definition positional :: "PacketRecord list \<Rightarrow> PacketRecord list \<Rightarrow> PacketDiff list" where
  "positional es as = concat (map (\<lambda>k. compare_step as k (es ! k)) [0..<length es])"

text \<open>
  The two traces of \<open>TestComparePackets\<close> in the tests of the replay tool (the test sets
  no timestamps).
\<close>

definition TestComparePackets_expected :: "PacketRecord list" where
  "TestComparePackets_expected =
    [\<lparr>TimestampNs = 0, Direction = DirClientToServer, Opcode = 0x0013, Payload = [0x00, 0x13]\<rparr>,
     \<lparr>TimestampNs = 0, Direction = DirServerToClient, Opcode = 0x0012, Payload = [0x00, 0x12, 0xAA]\<rparr>,
     \<lparr>TimestampNs = 0, Direction = DirServerToClient, Opcode = 0x0061, Payload = [0x00, 0x61]\<rparr>]"

definition TestComparePackets_actual :: "PacketRecord list" where
  "TestComparePackets_actual =
    [\<lparr>TimestampNs = 0, Direction = DirServerToClient, Opcode = 0x0012, Payload = [0x00, 0x12, 0xBB, 0xCC]\<rparr>,
     \<lparr>TimestampNs = 0, Direction = DirServerToClient, Opcode = 0x0099, Payload = [0x00, 0x99]\<rparr>]"

section \<open>The recording tap (network/pcap, \<open>RecordingConn\<close>)\<close>

text \<open>
  Go's \<open>binary.BigEndian.Uint16(b)\<close> is \<open>uint16(b[1]) | uint16(b[0])<<8\<close>. It panics on
  a slice of fewer than two bytes; its only call in \<open>record\<close> is guarded by
  \<open>len(data) >= 2\<close>.
\<close>

definition BigEndian_Uint16 :: "byte list \<Rightarrow> 16 word" where
  "BigEndian_Uint16 b = (ucast (b ! 1) OR push_bit 8 (ucast (b ! 0)))"

text \<open>
  \<open>RecordingConn\<close> holds the wrapped connection, the trace writer and the session start.
  Its mutex only serialises the two goroutines; a sequential model has no state for it.
  The wrapped \<open>network.Conn\<close> is an interface and \<open>pcap.Writer\<close> is not among the
  sources, so their methods are parameters of the model: each takes the state of its
  object and returns the Go results together with the new state. An \<open>error\<close> result is
  \<open>None\<close> for nil.
\<close>

record ('c, 'w) RecordingConn =
  inner :: 'c
  writer :: 'w
  startNs :: "64 word"

text \<open>
  \<open>record\<close>: \<open>now\<close> is the value \<open>time.Now().UnixNano()\<close> returns. The error of
  \<open>WritePacket\<close> is assigned to the blank identifier.
\<close>

definition RecordingConn_record ::
  "('w \<Rightarrow> PacketRecord \<Rightarrow> 'f option \<times> 'w) \<Rightarrow> 64 word \<Rightarrow> ('c, 'w) RecordingConn \<Rightarrow>
     Direction \<Rightarrow> byte list \<Rightarrow> ('c, 'w) RecordingConn" where
  "RecordingConn_record WritePacket now rc dir data =
     (let opcode = (if length data \<ge> 2 then BigEndian_Uint16 (take 2 data) else 0);
          rec = \<lparr>TimestampNs = now, Direction = dir, Opcode = opcode, Payload = data\<rparr>;
          (_, w') = WritePacket (writer rc) rec
      in rc\<lparr>writer := w'\<rparr>)"

definition RecordingConn_ReadPacket ::
  "('c \<Rightarrow> (byte list \<times> 'e option) \<times> 'c) \<Rightarrow> ('w \<Rightarrow> PacketRecord \<Rightarrow> 'f option \<times> 'w) \<Rightarrow>
     64 word \<Rightarrow> ('c, 'w) RecordingConn \<Rightarrow> (byte list \<times> 'e option) \<times> ('c, 'w) RecordingConn" where
  "RecordingConn_ReadPacket inner_ReadPacket WritePacket now rc =
     (let ((data, err), c') = inner_ReadPacket (inner rc);
          rc1 = rc\<lparr>inner := c'\<rparr>
      in if err \<noteq> None then ((data, err), rc1)
         else ((data, None), RecordingConn_record WritePacket now rc1 DirClientToServer data))"

definition RecordingConn_SendPacket ::
  "('c \<Rightarrow> byte list \<Rightarrow> 'e option \<times> 'c) \<Rightarrow> ('w \<Rightarrow> PacketRecord \<Rightarrow> 'f option \<times> 'w) \<Rightarrow>
     64 word \<Rightarrow> ('c, 'w) RecordingConn \<Rightarrow> byte list \<Rightarrow> 'e option \<times> ('c, 'w) RecordingConn" where
  "RecordingConn_SendPacket inner_SendPacket WritePacket now rc data =
     (let (err, c') = inner_SendPacket (inner rc) data;
          rc1 = rc\<lparr>inner := c'\<rparr>
      in if err \<noteq> None then (err, rc1)
         else (None, RecordingConn_record WritePacket now rc1 DirServerToClient data))"

text \<open>
  Go \<open>error\<close> values that occur in the sources: \<open>io.EOF\<close>, an error with a message, and
  an error wrapped by \<open>fmt.Errorf("...: %w", err)\<close>.
\<close>

datatype error = EOF | ErrorString string | Wrapped string error

text \<open>
  \<open>mockConn\<close> of the recording tests: the packets still to be read, the read position
  and the packets sent so far. \<open>ReadPacket\<close> returns \<open>nil, io.EOF\<close> once the data is
  used up; \<open>SendPacket\<close> stores a copy and never fails.
\<close>

record mockConn =
  readData :: "byte list list"
  readIdx :: nat
  sent :: "byte list list"

definition mockConn_ReadPacket :: "mockConn \<Rightarrow> (byte list \<times> error option) \<times> mockConn" where
  "mockConn_ReadPacket m =
     (if readIdx m \<ge> length (readData m) then (([], Some EOF), m)
      else ((readData m ! readIdx m, None), m\<lparr>readIdx := readIdx m + 1\<rparr>))"

definition mockConn_SendPacket :: "mockConn \<Rightarrow> byte list \<Rightarrow> error option \<times> mockConn" where
  "mockConn_SendPacket m data = (None, m\<lparr>sent := sent m @ [data]\<rparr>)"

text \<open>
  Inputs for the examples below: a writer that keeps the records appended to it, as a
  trace file does; a writer whose every append fails; a connection whose send fails;
  and the recording connection that \<open>TestRecordingConnBasic\<close> sets up, with one packet
  to read and session start 1000.
\<close>

definition listWriter_WritePacket ::
  "PacketRecord list \<Rightarrow> PacketRecord \<Rightarrow> error option \<times> PacketRecord list" where
  "listWriter_WritePacket w rec = (None, w @ [rec])"

definition failingWriter_WritePacket ::
  "PacketRecord list \<Rightarrow> PacketRecord \<Rightarrow> error option \<times> PacketRecord list" where
  "failingWriter_WritePacket w rec = (Some (ErrorString ''short write''), w)"

definition failingConn_SendPacket :: "mockConn \<Rightarrow> byte list \<Rightarrow> error option \<times> mockConn" where
  "failingConn_SendPacket m data = (Some (ErrorString ''broken pipe''), m)"

definition TestRecordingConnBasic_rc :: "(mockConn, PacketRecord list) RecordingConn" where
  "TestRecordingConnBasic_rc =
     \<lparr>inner = \<lparr>readData = [[0x00, 0x13, 0xDE, 0xAD]], readIdx = 0, sent = []\<rparr>,
      writer = [], startNs = 1000\<rparr>"

section \<open>Reading a capture (cmd/replay/main.go)\<close>

text \<open>
  The file header as \<open>createTestCapture\<close> builds it. The server role is one of sign,
  entrance and channel.
\<close>

datatype ServerType = ServerTypeSign | ServerTypeEntrance | ServerTypeChannel

record FileHeader =
  Version :: "16 word"
  ServerType :: ServerType
  ClientMode :: int
  SessionStartNs :: "64 word"

text \<open>
  Modelled from the spec: \<open>pcap.Reader\<close> and its \<open>ReadPacket\<close> are not among the sources.
  The specification says that next-record produces one decoded record per call and
  returns a distinct end-of-stream signal when no further records exist, separate from
  a decode error, and that a file is a header, a metadata block and then zero or more
  records. The state of a reader is therefore its header, the records of the file not
  yet returned, and how the input ends after them: \<open>EOF\<close> after a complete record,
  a decode error otherwise. The metadata block is left out: \<open>runStats\<close> does not read it.
\<close>

record Reader =
  Header :: FileHeader
  pending :: "PacketRecord list"
  final :: error

definition Reader_ReadPacket :: "Reader \<Rightarrow> (PacketRecord \<times> error option) \<times> Reader" where
  "Reader_ReadPacket r =
     (case pending r of
        [] \<Rightarrow> ((zero_PacketRecord, Some (final r)), r)
      | rec # rest \<Rightarrow> ((rec, None), r\<lparr>pending := rest\<rparr>))"

text \<open>
  \<open>openCapture\<close>: the file system is a parameter that tells, for a path, whether
  \<open>os.Open\<close> fails, \<open>pcap.NewReader\<close> fails, or a reader is returned.
\<close>

datatype opened = OpenFails error | NewReaderFails error | Opens Reader

definition openCapture :: "(string \<Rightarrow> opened) \<Rightarrow> string \<Rightarrow> error + Reader" where
  "openCapture fs path =
     (case fs path of
        OpenFails err \<Rightarrow> Inl (Wrapped ''open capture'' err)
      | NewReaderFails err \<Rightarrow> Inl (Wrapped ''read capture'' err)
      | Opens r \<Rightarrow> Inr r)"

text \<open>The loop of \<open>readAllPackets\<close>, with the records collected so far.\<close>

function readAllPackets_loop ::
  "Reader \<Rightarrow> PacketRecord list \<Rightarrow> (PacketRecord list \<times> error option) \<times> Reader" where
  "readAllPackets_loop r records =
     (case Reader_ReadPacket r of
        ((rec, err), r') \<Rightarrow>
          if err = Some EOF then ((records, None), r')
          else if err \<noteq> None then ((records, err), r')
          else readAllPackets_loop r' (records @ [rec]))"
  by pat_completeness auto
termination
  by (relation "measure (\<lambda>(r, records). length (pending r))")
     (auto simp: Reader_ReadPacket_def split: list.splits)

declare readAllPackets_loop.simps [simp del]

definition readAllPackets :: "Reader \<Rightarrow> (PacketRecord list \<times> error option) \<times> Reader" where
  "readAllPackets r = readAllPackets_loop r []"

text \<open>
  The reader that \<open>pcap.NewReader\<close> returns on the file \<open>createTestCapture\<close> of the tests
  has written: the header of that helper, the given records, a clean end of input. The
  value of \<open>pcap.FormatVersion\<close> is not among the sources and is a parameter.
\<close>

definition createTestCapture :: "16 word \<Rightarrow> PacketRecord list \<Rightarrow> Reader" where
  "createTestCapture FormatVersion records =
     \<lparr>Header = \<lparr>Version = FormatVersion, ServerType = ServerTypeChannel, ClientMode = 40,
                 SessionStartNs = 1000000000\<rparr>,
      pending = records, final = EOF\<rparr>"

section \<open>The stats mode (cmd/replay/main.go, \<open>runStats\<close>)\<close>

text \<open>
  What the program writes to standard output: each call of \<open>fmt.Println\<close> with its
  text, each call of \<open>fmt.Printf\<close> with its format string and its arguments.
\<close>

datatype arg =
  AString string | AInt int | AUint16 "16 word" | ADuration "64 word" | AServerType ServerType

datatype out = is_Println: Println string | is_Printf: Printf string "arg list"

text \<open>A function returns its error result, or the program panics.\<close>

datatype exit = Returned "error option" | Panicked

record opcodeStats =
  opcode :: "16 word"
  count :: int
  bytes :: int

text \<open>
  \<open>statsMap\<close> is a Go map from opcode to a pointer to its entry. The model keeps the
  entries in the order of their first insertion. The body of the loop looks the opcode
  up, creates the entry when it is absent, then increments \<open>count\<close> and adds the payload
  length to \<open>bytes\<close>.
\<close>

fun statsMap_count :: "opcodeStats list \<Rightarrow> 16 word \<Rightarrow> int \<Rightarrow> opcodeStats list" where
  "statsMap_count [] op n = [\<lparr>opcode = op, count = 0 + 1, bytes = 0 + n\<rparr>]"
| "statsMap_count (s # ss) op n =
     (if opcode s = op then s\<lparr>count := count s + 1, bytes := bytes s + n\<rparr> # ss
      else s # statsMap_count ss op n)"

record totals =
  statsMap :: "opcodeStats list"
  totalC2S :: int
  totalS2C :: int
  bytesC2S :: int
  bytesS2C :: int

fun stats_loop :: "PacketRecord list \<Rightarrow> totals \<Rightarrow> totals" where
  "stats_loop [] t = t"
| "stats_loop (rec # rest) t =
     (let t1 = t\<lparr>statsMap := statsMap_count (statsMap t) (Opcode rec) (int (length (Payload rec)))\<rparr>;
          t2 = (case Direction rec of
                  DirClientToServer \<Rightarrow>
                    t1\<lparr>totalC2S := totalC2S t1 + 1,
                       bytesC2S := bytesC2S t1 + int (length (Payload rec))\<rparr>
                | DirServerToClient \<Rightarrow>
                    t1\<lparr>totalS2C := totalS2C t1 + 1,
                       bytesS2C := bytesS2C t1 + int (length (Payload rec))\<rparr>)
      in stats_loop rest t2)"

text \<open>
  \<open>records[len(records)-1].TimestampNs - records[0].TimestampNs\<close>: indexing an empty
  slice panics (\<open>None\<close>); the subtraction is that of int64.
\<close>

definition session_duration :: "PacketRecord list \<Rightarrow> 64 word option" where
  "session_duration records =
     (case records of
        [] \<Rightarrow> None
      | _ # _ \<Rightarrow> Some (TimestampNs (last records) - TimestampNs (hd records)))"

text \<open>
  \<open>runStats\<close>. \<open>PacketID_String\<close> stands for \<open>network.PacketID(op).String()\<close>, which is
  not among the sources. Go leaves open the order in which \<open>range\<close> visits the entries
  of a map, and \<open>sort.Slice\<close> is not stable, so the order of rows of equal count is not
  fixed by the program. Both are parameters: \<open>map_range\<close> gives the entries of the map
  in the order the loop \<open>for _, s := range statsMap\<close> visits them, and \<open>sort_Slice\<close> is
  the library sort, called with the comparison \<open>sorted[i].count > sorted[j].count\<close>.
  The arrow in the third format string is the three bytes of its UTF-8 encoding.
\<close>

definition runStats ::
  "(string \<Rightarrow> opened) \<Rightarrow> (opcodeStats list \<Rightarrow> opcodeStats list) \<Rightarrow>
     ((opcodeStats \<Rightarrow> opcodeStats \<Rightarrow> bool) \<Rightarrow> opcodeStats list \<Rightarrow> opcodeStats list) \<Rightarrow>
     (16 word \<Rightarrow> string) \<Rightarrow> string \<Rightarrow> out list \<times> exit" where
  "runStats fs map_range sort_Slice PacketID_String path =
     (case openCapture fs path of
        Inl err \<Rightarrow> ([], Returned (Some err))
      | Inr r \<Rightarrow>
          (case readAllPackets r of
             ((records, Some err), _) \<Rightarrow> ([], Returned (Some err))
           | ((records, None), _) \<Rightarrow>
               if length records = 0 then
                 ([Println ''Empty capture (0 packets)''], Returned None)
               else
                 (let t = stats_loop records
                            \<lparr>statsMap = [], totalC2S = 0, totalS2C = 0,
                             bytesC2S = 0, bytesS2C = 0\<rparr>;
                      sorted = sort_Slice (\<lambda>si sj. count si > count sj) (map_range (statsMap t))
                  in case session_duration records of
                       None \<Rightarrow> ([], Panicked)
                     | Some duration \<Rightarrow>
                         ([Printf ''=== Capture Stats: %s ===\<newline>'' [AString path],
                           Printf ''Server: %s  Duration: %s  Packets: %d\<newline>''
                             [AServerType (ServerType (Header r)), ADuration duration,
                              AInt (int (length records))],
                           Printf (''C'' @ [CHR 0xE2, CHR 0x86, CHR 0x92] @
                                   ''S: %d packets (%d bytes)  S'' @
                                   [CHR 0xE2, CHR 0x86, CHR 0x92] @
                                   ''C: %d packets (%d bytes)\<newline>\<newline>'')
                             [AInt (totalC2S t), AInt (bytesC2S t),
                              AInt (totalS2C t), AInt (bytesS2C t)],
                           Printf ''%-8s %-35s %8s %10s\<newline>''
                             [AString ''Opcode'', AString ''Name'',
                              AString ''Count'', AString ''Bytes''],
                           Printf ''%-8s %-35s %8s %10s\<newline>''
                             [AString ''------'', AString ''----'',
                              AString ''-----'', AString ''-----'']] @
                          map (\<lambda>s. Printf ''0x%04X   %-35s %8d %10d\<newline>''
                                      [AUint16 (opcode s), AString (PacketID_String (opcode s)),
                                       AInt (count s), AInt (bytes s)]) sorted,
                          Returned None))))"

text \<open>
  Inputs for the examples below: the file system of \<open>TestRunStatsEmpty\<close>, where every
  path opens the capture that \<open>createTestCapture\<close> writes with no records (format
  version 1); a map iteration that visits the entries in the order of their insertion;
  an insertion sort for \<open>sort.Slice\<close>; and a name lookup that knows no opcode.
\<close>

definition TestRunStatsEmpty_fs :: "string \<Rightarrow> opened" where
  "TestRunStatsEmpty_fs path = Opens (createTestCapture 1 [])"

definition map_range_insertion :: "opcodeStats list \<Rightarrow> opcodeStats list" where
  "map_range_insertion entries = entries"

fun insert_less :: "('a \<Rightarrow> 'a \<Rightarrow> bool) \<Rightarrow> 'a \<Rightarrow> 'a list \<Rightarrow> 'a list" where
  "insert_less lt x [] = [x]"
| "insert_less lt x (y # ys) =
     (if lt x y then x # y # ys else y # insert_less lt x ys)"

definition sort_Slice_insertion :: "('a \<Rightarrow> 'a \<Rightarrow> bool) \<Rightarrow> 'a list \<Rightarrow> 'a list" where
  "sort_Slice_insertion lt xs = foldr (insert_less lt) xs []"

definition PacketID_String_unknown :: "16 word \<Rightarrow> string" where
  "PacketID_String_unknown op = ''unknown''"

section \<open>The two loops of the comparator in closed form\<close>

lemma compare_loop_Cons:
  "compare_loop i (e # es) as diffs = compare_loop (Suc i) es as (diffs @ compare_step as i e)"
  by (simp add: compare_step_def Let_def)

lemma compare_loop_step:
  "compare_loop i es as diffs =
     diffs @ concat (map (\<lambda>k. compare_step as (i + k) (es ! k)) [0..<length es])"
proof (induction es arbitrary: i diffs)
  case Nil
  then show ?case by simp
next
  case (Cons e es)
  have split: "[0..<length (e # es)] = 0 # map Suc [0..<length es]"
    by (simp add: upt_conv_Cons map_Suc_upt del: upt_Suc)
  show ?case
    unfolding split compare_loop_Cons Cons.IH
    by (simp add: comp_def del: upt_Suc)
qed

lemma extras_loop_map:
  "extras_loop i as diffs = diffs @ map (extra_diff as) [i..<length as]"
proof (induction i as diffs rule: extras_loop.induct)
  case (1 i as diffs)
  show ?case
  proof (cases "i < length as")
    case True
    then show ?thesis
      using "1.IH" by (subst extras_loop.simps) (simp add: upt_conv_Cons extra_diff_def)
  next
    case False
    then show ?thesis by (subst extras_loop.simps) simp
  qed
qed

lemma ComparePackets_split:
  "ComparePackets expected actual =
     positional (FilterByDirection expected DirServerToClient)
                (FilterByDirection actual DirServerToClient) @
     map (extra_diff (FilterByDirection actual DirServerToClient))
       [length (FilterByDirection expected DirServerToClient)..<
        length (FilterByDirection actual DirServerToClient)]"
  by (simp add: ComparePackets_def Let_def extras_loop_map compare_loop_step positional_def)

lemma Index_compare_step: "d \<in> set (compare_step as k e) \<Longrightarrow> Index d = k"
  by (auto simp: compare_step_def split: if_splits)

lemma filter_compare_step_same:
  "filter (\<lambda>d. Index d = k) (compare_step as k e) = compare_step as k e"
  by (rule filter_True) (simp add: Index_compare_step)

lemma filter_compare_step_other:
  "k \<noteq> j \<Longrightarrow> filter (\<lambda>d. Index d = j) (compare_step as k e) = []"
  by (auto simp: filter_empty_conv dest: Index_compare_step)

lemma filter_concat_steps:
  "filter (\<lambda>d. Index d = j) (concat (map (\<lambda>k. compare_step as k (es ! k)) [0..<n])) =
     (if j < n then compare_step as j (es ! j) else [])"
proof (induction n)
  case 0
  then show ?case by simp
next
  case (Suc n)
  show ?case
  proof (cases "j = n")
    case True
    then show ?thesis
      using Suc by (simp add: filter_compare_step_same)
  next
    case False
    then show ?thesis
      using Suc by (simp add: filter_compare_step_other)
  qed
qed

lemma filter_positional:
  "filter (\<lambda>d. Index d = j) (positional es as) =
     (if j < length es then compare_step as j (es ! j) else [])"
  by (simp add: positional_def filter_concat_steps)

lemma filter_extras_below:
  "j < n \<Longrightarrow> filter (\<lambda>d. Index d = j) (map (extra_diff as) [n..<m]) = []"
  by (auto simp: filter_empty_conv extra_diff_def)

lemma filter_ComparePackets_positional:
  "j < length (FilterByDirection expected DirServerToClient) \<Longrightarrow>
   filter (\<lambda>d. Index d = j) (ComparePackets expected actual) =
     compare_step (FilterByDirection actual DirServerToClient) j
       (FilterByDirection expected DirServerToClient ! j)"
  by (simp add: ComparePackets_split filter_positional filter_extras_below)

lemma Index_positional: "d \<in> set (positional es as) \<Longrightarrow> Index d < length es"
  by (auto simp: positional_def dest: Index_compare_step)

lemma sorted_steps:
  "sorted_wrt (<) (map Index (concat (map (\<lambda>k. compare_step as k (es ! k)) [0..<n])))"
proof (induction n)
  case 0
  then show ?case by simp
next
  case (Suc n)
  have last: "sorted_wrt (<) (map Index (compare_step as n (es ! n)))"
    by (simp add: compare_step_def)
  have below: "\<forall>x \<in> set (concat (map (\<lambda>k. compare_step as k (es ! k)) [0..<n])).
                 \<forall>y \<in> set (compare_step as n (es ! n)). Index x < Index y"
    by (auto dest!: Index_compare_step)
  show ?case
    using Suc last below by (simp add: sorted_wrt_append)
qed

lemma sorted_positional: "sorted_wrt (<) (map Index (positional es as))"
  by (simp add: positional_def sorted_steps)

lemma positional_same: "positional s s = []"
  by (simp add: positional_def compare_step_def)

lemma filter_S2C_idem:
  "FilterByDirection (filter (\<lambda>r. Direction r = DirServerToClient) xs) DirServerToClient =
   FilterByDirection xs DirServerToClient"
  by (simp add: FilterByDirection_def)

lemma filter_drop_C2S:
  "Direction r = DirClientToServer \<Longrightarrow>
   FilterByDirection (xs @ r # ys) DirServerToClient =
   FilterByDirection (xs @ ys) DirServerToClient"
  by (simp add: FilterByDirection_def)

lemma compare_step_fields:
  "d \<in> set (compare_step as k e) \<Longrightarrow>
   Index d = k \<and> Expected d = e \<and>
   Actual d = (if length as \<le> k then None else Some (as ! k))"
  by (auto simp: compare_step_def split: if_splits)

lemma positional_fields:
  assumes "d \<in> set (positional es as)"
  shows "Index d < length es \<and> Expected d = es ! Index d \<and>
         Actual d = (if length as \<le> Index d then None else Some (as ! Index d))"
proof -
  from assms obtain k where k: "k < length es" "d \<in> set (compare_step as k (es ! k))"
    by (auto simp: positional_def)
  from compare_step_fields [OF k(2)] k(1) show ?thesis by simp
qed

lemma extras_fields:
  assumes "d \<in> set (map (extra_diff as) [n..<length as])"
  shows "n \<le> Index d \<and> Index d < length as \<and> Expected d = zero_PacketRecord \<and>
         Actual d = Some (as ! Index d)"
  using assms by (auto simp: extra_diff_def)

lemma ComparePackets_fields:
  assumes "d \<in> set (ComparePackets expected actual)"
  shows "(Index d < length (FilterByDirection expected DirServerToClient) \<longrightarrow>
            Expected d = FilterByDirection expected DirServerToClient ! Index d) \<and>
         (length (FilterByDirection expected DirServerToClient) \<le> Index d \<longrightarrow>
            Expected d = zero_PacketRecord \<and>
            Index d < length (FilterByDirection actual DirServerToClient)) \<and>
         (Index d < length (FilterByDirection actual DirServerToClient) \<longrightarrow>
            Actual d = Some (FilterByDirection actual DirServerToClient ! Index d)) \<and>
         (length (FilterByDirection actual DirServerToClient) \<le> Index d \<longrightarrow>
            Actual d = None)"
proof -
  let ?es = "FilterByDirection expected DirServerToClient"
  let ?as = "FilterByDirection actual DirServerToClient"
  from assms consider
    (pos) "d \<in> set (positional ?es ?as)"
    | (extra) "d \<in> set (map (extra_diff ?as) [length ?es..<length ?as])"
    by (auto simp: ComparePackets_split)
  then show ?thesis
  proof cases
    case pos
    from positional_fields [OF pos] show ?thesis by auto
  next
    case extra
    from extras_fields [OF extra] show ?thesis by auto
  qed
qed

lemmas eval_compare =
  ComparePackets_split positional_def compare_step_def extra_diff_def FilterByDirection_def
  zero_PacketRecord_def

section \<open>Properties of the comparator\<close>

text \<open>
  C10. Comparing a trace against itself reports no drift: for every sequence of records
  \<open>s\<close>, whatever its directions, opcodes and payloads, \<open>ComparePackets s s\<close> is empty.
\<close>

theorem ComparePackets_self_empty: "ComparePackets s s = []"
  by (simp add: ComparePackets_split positional_same)

text \<open>
  C4. Where, at index \<open>i\<close> of the two filtered server-to-client sequences, the opcodes
  are equal and the payload lengths differ, \<open>ComparePackets\<close> emits exactly one diff with
  that index, and its \<open>SizeDelta\<close> is the length of the actual payload minus the length of
  the expected payload. In particular, an expected packet with opcode 0x0012 and three
  bytes against an actual packet with opcode 0x0012 and four bytes gives exactly one
  diff, with size delta +1.
\<close>

theorem ComparePackets_size_delta:
  "(i < length (FilterByDirection expected DirServerToClient) \<and>
    i < length (FilterByDirection actual DirServerToClient) \<and>
    Opcode (FilterByDirection expected DirServerToClient ! i) =
      Opcode (FilterByDirection actual DirServerToClient ! i) \<and>
    length (Payload (FilterByDirection expected DirServerToClient ! i)) \<noteq>
      length (Payload (FilterByDirection actual DirServerToClient ! i))
    \<longrightarrow>
    filter (\<lambda>d. Index d = i) (ComparePackets expected actual) =
      [\<lparr>Index = i,
        Expected = FilterByDirection expected DirServerToClient ! i,
        Actual = Some (FilterByDirection actual DirServerToClient ! i),
        OpcodeMismatch = False,
        SizeDelta =
          int (length (Payload (FilterByDirection actual DirServerToClient ! i))) -
          int (length (Payload (FilterByDirection expected DirServerToClient ! i)))\<rparr>])
   \<and>
   ComparePackets
     [\<lparr>TimestampNs = 0, Direction = DirServerToClient, Opcode = 0x0012,
       Payload = [0x00, 0x12, 0xAA]\<rparr>]
     [\<lparr>TimestampNs = 0, Direction = DirServerToClient, Opcode = 0x0012,
       Payload = [0x00, 0x12, 0xBB, 0xCC]\<rparr>] =
     [\<lparr>Index = 0,
       Expected = \<lparr>TimestampNs = 0, Direction = DirServerToClient, Opcode = 0x0012,
                   Payload = [0x00, 0x12, 0xAA]\<rparr>,
       Actual = Some \<lparr>TimestampNs = 0, Direction = DirServerToClient, Opcode = 0x0012,
                      Payload = [0x00, 0x12, 0xBB, 0xCC]\<rparr>,
       OpcodeMismatch = False, SizeDelta = 1\<rparr>]"
proof (intro conjI impI)
  assume h: "i < length (FilterByDirection expected DirServerToClient) \<and>
    i < length (FilterByDirection actual DirServerToClient) \<and>
    Opcode (FilterByDirection expected DirServerToClient ! i) =
      Opcode (FilterByDirection actual DirServerToClient ! i) \<and>
    length (Payload (FilterByDirection expected DirServerToClient ! i)) \<noteq>
      length (Payload (FilterByDirection actual DirServerToClient ! i))"
  then show "filter (\<lambda>d. Index d = i) (ComparePackets expected actual) =
      [\<lparr>Index = i,
        Expected = FilterByDirection expected DirServerToClient ! i,
        Actual = Some (FilterByDirection actual DirServerToClient ! i),
        OpcodeMismatch = False,
        SizeDelta =
          int (length (Payload (FilterByDirection actual DirServerToClient ! i))) -
          int (length (Payload (FilterByDirection expected DirServerToClient ! i)))\<rparr>]"
    by (simp add: filter_ComparePackets_positional compare_step_def)
next
  show "ComparePackets
     [\<lparr>TimestampNs = 0, Direction = DirServerToClient, Opcode = 0x0012,
       Payload = [0x00, 0x12, 0xAA]\<rparr>]
     [\<lparr>TimestampNs = 0, Direction = DirServerToClient, Opcode = 0x0012,
       Payload = [0x00, 0x12, 0xBB, 0xCC]\<rparr>] =
     [\<lparr>Index = 0,
       Expected = \<lparr>TimestampNs = 0, Direction = DirServerToClient, Opcode = 0x0012,
                   Payload = [0x00, 0x12, 0xAA]\<rparr>,
       Actual = Some \<lparr>TimestampNs = 0, Direction = DirServerToClient, Opcode = 0x0012,
                      Payload = [0x00, 0x12, 0xBB, 0xCC]\<rparr>,
       OpcodeMismatch = False, SizeDelta = 1\<rparr>]"
    by (simp add: eval_compare)
qed

text \<open>The first server-to-client pair of \<open>TestComparePackets\<close>: three bytes against four.\<close>

theorem ComparePackets_size_delta_witness:
  "(0::nat) < length (FilterByDirection TestComparePackets_expected DirServerToClient) \<and>
   (0::nat) < length (FilterByDirection TestComparePackets_actual DirServerToClient) \<and>
   Opcode (FilterByDirection TestComparePackets_expected DirServerToClient ! 0) =
     Opcode (FilterByDirection TestComparePackets_actual DirServerToClient ! 0) \<and>
   length (Payload (FilterByDirection TestComparePackets_expected DirServerToClient ! 0)) \<noteq>
     length (Payload (FilterByDirection TestComparePackets_actual DirServerToClient ! 0)) \<and>
   map SizeDelta (filter (\<lambda>d. Index d = 0) (ComparePackets TestComparePackets_expected TestComparePackets_actual)) = [1]"
  using ComparePackets_size_delta [of 0 TestComparePackets_expected TestComparePackets_actual]
  by (simp add: FilterByDirection_def TestComparePackets_expected_def TestComparePackets_actual_def)


text \<open>
  C5. Where the opcodes at a filtered index differ, \<open>ComparePackets\<close> emits one diff with
  \<open>OpcodeMismatch\<close> set that carries both records; where the filtered actual sequence has
  no record at an index of the expected one, it emits one diff that carries the expected
  record and no actual record. In particular, the expected opcodes 0x0012, 0x0061 against
  the single actual opcode 0x0099 give exactly two diffs: an opcode mismatch at index 0
  and a missing response at index 1.
\<close>

theorem ComparePackets_mismatch_missing:
  "(i < length (FilterByDirection expected DirServerToClient) \<and>
    i < length (FilterByDirection actual DirServerToClient) \<and>
    Opcode (FilterByDirection expected DirServerToClient ! i) \<noteq>
      Opcode (FilterByDirection actual DirServerToClient ! i)
    \<longrightarrow>
    filter (\<lambda>d. Index d = i) (ComparePackets expected actual) =
      [\<lparr>Index = i,
        Expected = FilterByDirection expected DirServerToClient ! i,
        Actual = Some (FilterByDirection actual DirServerToClient ! i),
        OpcodeMismatch = True, SizeDelta = 0\<rparr>])
   \<and>
   (i < length (FilterByDirection expected DirServerToClient) \<and>
    length (FilterByDirection actual DirServerToClient) \<le> i
    \<longrightarrow>
    filter (\<lambda>d. Index d = i) (ComparePackets expected actual) =
      [\<lparr>Index = i,
        Expected = FilterByDirection expected DirServerToClient ! i,
        Actual = None, OpcodeMismatch = False, SizeDelta = 0\<rparr>])
   \<and>
   ComparePackets
     [\<lparr>TimestampNs = 0, Direction = DirServerToClient, Opcode = 0x0012,
       Payload = [0x00, 0x12]\<rparr>,
      \<lparr>TimestampNs = 0, Direction = DirServerToClient, Opcode = 0x0061,
       Payload = [0x00, 0x61]\<rparr>]
     [\<lparr>TimestampNs = 0, Direction = DirServerToClient, Opcode = 0x0099,
       Payload = [0x00, 0x99]\<rparr>] =
     [\<lparr>Index = 0,
       Expected = \<lparr>TimestampNs = 0, Direction = DirServerToClient, Opcode = 0x0012,
                   Payload = [0x00, 0x12]\<rparr>,
       Actual = Some \<lparr>TimestampNs = 0, Direction = DirServerToClient, Opcode = 0x0099,
                      Payload = [0x00, 0x99]\<rparr>,
       OpcodeMismatch = True, SizeDelta = 0\<rparr>,
      \<lparr>Index = 1,
       Expected = \<lparr>TimestampNs = 0, Direction = DirServerToClient, Opcode = 0x0061,
                   Payload = [0x00, 0x61]\<rparr>,
       Actual = None, OpcodeMismatch = False, SizeDelta = 0\<rparr>]"
  (is "?mismatch \<and> ?missing \<and> ?example")
proof -
  have m1: ?mismatch
    by (simp add: filter_ComparePackets_positional compare_step_def)
  have m2: ?missing
    by (simp add: filter_ComparePackets_positional compare_step_def)
  have m3: ?example
    by (simp add: eval_compare)
  from m1 m2 m3 show ?thesis by blast
qed

theorem ComparePackets_mismatch_missing_witness:
  "(1::nat) < length (FilterByDirection TestComparePackets_expected DirServerToClient) \<and>
   (1::nat) < length (FilterByDirection TestComparePackets_actual DirServerToClient) \<and>
   Opcode (FilterByDirection TestComparePackets_expected DirServerToClient ! 1) \<noteq>
     Opcode (FilterByDirection TestComparePackets_actual DirServerToClient ! 1) \<and>
   map OpcodeMismatch
     (filter (\<lambda>d. Index d = 1)
        (ComparePackets TestComparePackets_expected TestComparePackets_actual)) = [True] \<and>
   (1::nat) < length (FilterByDirection TestComparePackets_expected DirServerToClient) \<and>
   length (FilterByDirection (take 1 TestComparePackets_actual) DirServerToClient) \<le> (1::nat) \<and>
   map Actual
     (filter (\<lambda>d. Index d = 1)
        (ComparePackets TestComparePackets_expected (take 1 TestComparePackets_actual))) = [None]"
  using ComparePackets_mismatch_missing
          [of 1 TestComparePackets_expected TestComparePackets_actual]
        ComparePackets_mismatch_missing
          [of 1 TestComparePackets_expected "take 1 TestComparePackets_actual"]
  by (simp add: FilterByDirection_def TestComparePackets_expected_def
        TestComparePackets_actual_def)

text \<open>
  C6. The output of \<open>ComparePackets\<close> is a list \<open>P\<close> of positional diffs followed by one
  diff for every index of the filtered actual sequence at or beyond the length of the
  filtered expected sequence, in order, each with the zero record as its expected side
  and the actual record of that index. The diffs of \<open>P\<close> have indices below the length of
  the filtered expected sequence, in strictly ascending order.
\<close>

theorem ComparePackets_extras_trail:
  "\<exists>P. ComparePackets expected actual =
          P @ map (\<lambda>j. \<lparr>Index = j, Expected = zero_PacketRecord,
                          Actual = Some (FilterByDirection actual DirServerToClient ! j),
                          OpcodeMismatch = False, SizeDelta = 0\<rparr>)
                [length (FilterByDirection expected DirServerToClient)..<
                 length (FilterByDirection actual DirServerToClient)] \<and>
        (\<forall>d \<in> set P. Index d < length (FilterByDirection expected DirServerToClient)) \<and>
        sorted_wrt (<) (map Index P)"
proof (intro exI conjI ballI)
  show "ComparePackets expected actual =
          positional (FilterByDirection expected DirServerToClient)
                     (FilterByDirection actual DirServerToClient) @
          map (\<lambda>j. \<lparr>Index = j, Expected = zero_PacketRecord,
                          Actual = Some (FilterByDirection actual DirServerToClient ! j),
                          OpcodeMismatch = False, SizeDelta = 0\<rparr>)
                [length (FilterByDirection expected DirServerToClient)..<
                 length (FilterByDirection actual DirServerToClient)]"
    unfolding ComparePackets_split extra_diff_def ..
next
  fix d
  assume "d \<in> set (positional (FilterByDirection expected DirServerToClient)
                     (FilterByDirection actual DirServerToClient))"
  then show "Index d < length (FilterByDirection expected DirServerToClient)"
    by (rule Index_positional)
next
  show "sorted_wrt (<) (map Index (positional (FilterByDirection expected DirServerToClient)
                     (FilterByDirection actual DirServerToClient)))"
    by (rule sorted_positional)
qed

theorem ComparePackets_extras_trail_witness:
  "(\<exists>P. ComparePackets (take 2 TestComparePackets_expected)
            (TestComparePackets_actual @ TestComparePackets_actual) =
          P @ [\<lparr>Index = 1, Expected = zero_PacketRecord,
                 Actual = Some \<lparr>TimestampNs = 0, Direction = DirServerToClient,
                                Opcode = 0x0099, Payload = [0x00, 0x99]\<rparr>,
                 OpcodeMismatch = False, SizeDelta = 0\<rparr>,
               \<lparr>Index = 2, Expected = zero_PacketRecord,
                 Actual = Some \<lparr>TimestampNs = 0, Direction = DirServerToClient,
                                Opcode = 0x0012, Payload = [0x00, 0x12, 0xBB, 0xCC]\<rparr>,
                 OpcodeMismatch = False, SizeDelta = 0\<rparr>,
               \<lparr>Index = 3, Expected = zero_PacketRecord,
                 Actual = Some \<lparr>TimestampNs = 0, Direction = DirServerToClient,
                                Opcode = 0x0099, Payload = [0x00, 0x99]\<rparr>,
                 OpcodeMismatch = False, SizeDelta = 0\<rparr>] \<and>
        list_all (\<lambda>d. Index d < 1) P \<and> sorted_wrt (<) (map Index P)) \<and>
   ComparePackets []
     [\<lparr>TimestampNs = 0, Direction = DirServerToClient, Opcode = 0x0012,
       Payload = [0x00, 0x12]\<rparr>] =
     [\<lparr>Index = 0, Expected = zero_PacketRecord,
       Actual = Some \<lparr>TimestampNs = 0, Direction = DirServerToClient, Opcode = 0x0012,
                      Payload = [0x00, 0x12]\<rparr>,
       OpcodeMismatch = False, SizeDelta = 0\<rparr>]"
  using ComparePackets_extras_trail
          [of "take 2 TestComparePackets_expected"
              "TestComparePackets_actual @ TestComparePackets_actual"]
        ComparePackets_extras_trail
          [of "[]" "[\<lparr>TimestampNs = 0, Direction = DirServerToClient, Opcode = 0x0012,
                      Payload = [0x00, 0x12]\<rparr>]"]
  by (auto simp: FilterByDirection_def TestComparePackets_expected_def
        TestComparePackets_actual_def upt_rec_numeral list_all_iff)

text \<open>
  C7. \<open>ComparePackets\<close> sees only the server-to-client records of its two arguments, in
  their original order. Its result is the one it gives on the filtered sequences, and a
  client-to-server record inserted anywhere in either argument changes neither the
  diffs nor their indices. The index of every diff is a position in the filtered
  sequences, which keep the records in the order of the input: a diff with an index
  inside the filtered expected sequence carries the expected record at that position
  (beyond it, the zero record), and a diff with an index inside the filtered actual
  sequence carries the actual record at that position (beyond it, none).
\<close>

theorem ComparePackets_ignores_client_records:
  "ComparePackets expected actual =
     ComparePackets (filter (\<lambda>r. Direction r = DirServerToClient) expected)
                    (filter (\<lambda>r. Direction r = DirServerToClient) actual)
   \<and>
   (Direction r = DirClientToServer \<longrightarrow>
      ComparePackets (xs @ r # ys) actual = ComparePackets (xs @ ys) actual \<and>
      ComparePackets expected (xs @ r # ys) = ComparePackets expected (xs @ ys))
   \<and>
   (\<forall>d \<in> set (ComparePackets expected actual).
      (Index d < length (filter (\<lambda>r. Direction r = DirServerToClient) expected) \<longrightarrow>
         Expected d = filter (\<lambda>r. Direction r = DirServerToClient) expected ! Index d) \<and>
      (length (filter (\<lambda>r. Direction r = DirServerToClient) expected) \<le> Index d \<longrightarrow>
         Expected d = zero_PacketRecord \<and>
         Index d < length (filter (\<lambda>r. Direction r = DirServerToClient) actual)) \<and>
      (Index d < length (filter (\<lambda>r. Direction r = DirServerToClient) actual) \<longrightarrow>
         Actual d = Some (filter (\<lambda>r. Direction r = DirServerToClient) actual ! Index d)) \<and>
      (length (filter (\<lambda>r. Direction r = DirServerToClient) actual) \<le> Index d \<longrightarrow>
         Actual d = None))"
  (is "?same \<and> ?insert \<and> ?fields")
proof -
  have a: ?same
    by (simp add: ComparePackets_def filter_S2C_idem)
  have b: ?insert
    by (simp add: ComparePackets_def filter_drop_C2S)
  have c: ?fields
    using ComparePackets_fields [of _ expected actual]
    unfolding FilterByDirection_def by blast
  from a b c show ?thesis by blast
qed

text \<open>
  The traces of \<open>TestComparePackets\<close>, whose expected side starts with a client-to-server
  record: the diffs are those of the trace without it, the diff at index 1 carries the
  second server-to-client record of each side, and shortening either side gives a diff
  without an actual record and a diff with the zero record as its expected side.
\<close>

theorem ComparePackets_ignores_client_records_witness:
  "Direction (hd TestComparePackets_expected) = DirClientToServer \<and>
   ComparePackets TestComparePackets_expected TestComparePackets_actual =
     ComparePackets (tl TestComparePackets_expected) TestComparePackets_actual \<and>
   map Expected (ComparePackets TestComparePackets_expected TestComparePackets_actual) =
     [\<lparr>TimestampNs = 0, Direction = DirServerToClient, Opcode = 0x0012,
       Payload = [0x00, 0x12, 0xAA]\<rparr>,
      \<lparr>TimestampNs = 0, Direction = DirServerToClient, Opcode = 0x0061,
       Payload = [0x00, 0x61]\<rparr>] \<and>
   ComparePackets TestComparePackets_expected TestComparePackets_actual ! 1
     \<in> set (ComparePackets TestComparePackets_expected TestComparePackets_actual) \<and>
   Index (ComparePackets TestComparePackets_expected TestComparePackets_actual ! 1)
     < length (filter (\<lambda>r. Direction r = DirServerToClient) TestComparePackets_expected) \<and>
   Expected (ComparePackets TestComparePackets_expected TestComparePackets_actual ! 1) =
     filter (\<lambda>r. Direction r = DirServerToClient) TestComparePackets_expected !
       Index (ComparePackets TestComparePackets_expected TestComparePackets_actual ! 1) \<and>
   Index (ComparePackets TestComparePackets_expected TestComparePackets_actual ! 1)
     < length (filter (\<lambda>r. Direction r = DirServerToClient) TestComparePackets_actual) \<and>
   Actual (ComparePackets TestComparePackets_expected TestComparePackets_actual ! 1) =
     Some (filter (\<lambda>r. Direction r = DirServerToClient) TestComparePackets_actual !
       Index (ComparePackets TestComparePackets_expected TestComparePackets_actual ! 1)) \<and>
   ComparePackets TestComparePackets_expected (take 1 TestComparePackets_actual) ! 1
     \<in> set (ComparePackets TestComparePackets_expected (take 1 TestComparePackets_actual)) \<and>
   length (filter (\<lambda>r. Direction r = DirServerToClient) (take 1 TestComparePackets_actual))
     \<le> Index (ComparePackets TestComparePackets_expected
                 (take 1 TestComparePackets_actual) ! 1) \<and>
   Actual (ComparePackets TestComparePackets_expected (take 1 TestComparePackets_actual) ! 1) =
     None \<and>
   ComparePackets (take 2 TestComparePackets_expected) TestComparePackets_actual ! 1
     \<in> set (ComparePackets (take 2 TestComparePackets_expected) TestComparePackets_actual) \<and>
   length (filter (\<lambda>r. Direction r = DirServerToClient) (take 2 TestComparePackets_expected))
     \<le> Index (ComparePackets (take 2 TestComparePackets_expected)
                 TestComparePackets_actual ! 1) \<and>
   Expected (ComparePackets (take 2 TestComparePackets_expected)
               TestComparePackets_actual ! 1) = zero_PacketRecord"
  (is "?c1 \<and> ?c2 \<and> ?c3 \<and> ?m1 \<and> ?h1 \<and> ?e1 \<and> ?h2 \<and> ?a1 \<and> ?m2 \<and> ?h3 \<and> ?a2 \<and> ?m3 \<and> ?h4 \<and> ?e2")
proof -
  let ?E = TestComparePackets_expected
  let ?A = TestComparePackets_actual
  have ev1: "ComparePackets ?E ?A =
      [\<lparr>Index = 0,
        Expected = \<lparr>TimestampNs = 0, Direction = DirServerToClient, Opcode = 0x0012,
                    Payload = [0x00, 0x12, 0xAA]\<rparr>,
        Actual = Some \<lparr>TimestampNs = 0, Direction = DirServerToClient, Opcode = 0x0012,
                       Payload = [0x00, 0x12, 0xBB, 0xCC]\<rparr>,
        OpcodeMismatch = False, SizeDelta = 1\<rparr>,
       \<lparr>Index = 1,
        Expected = \<lparr>TimestampNs = 0, Direction = DirServerToClient, Opcode = 0x0061,
                    Payload = [0x00, 0x61]\<rparr>,
        Actual = Some \<lparr>TimestampNs = 0, Direction = DirServerToClient, Opcode = 0x0099,
                       Payload = [0x00, 0x99]\<rparr>,
        OpcodeMismatch = True, SizeDelta = 0\<rparr>]"
    by (simp add: eval_compare TestComparePackets_expected_def TestComparePackets_actual_def)
  have ev2: "ComparePackets ?E (take 1 ?A) =
      [\<lparr>Index = 0,
        Expected = \<lparr>TimestampNs = 0, Direction = DirServerToClient, Opcode = 0x0012,
                    Payload = [0x00, 0x12, 0xAA]\<rparr>,
        Actual = Some \<lparr>TimestampNs = 0, Direction = DirServerToClient, Opcode = 0x0012,
                       Payload = [0x00, 0x12, 0xBB, 0xCC]\<rparr>,
        OpcodeMismatch = False, SizeDelta = 1\<rparr>,
       \<lparr>Index = 1,
        Expected = \<lparr>TimestampNs = 0, Direction = DirServerToClient, Opcode = 0x0061,
                    Payload = [0x00, 0x61]\<rparr>,
        Actual = None, OpcodeMismatch = False, SizeDelta = 0\<rparr>]"
    by (simp add: eval_compare TestComparePackets_expected_def TestComparePackets_actual_def)
  have ev3: "ComparePackets (take 2 ?E) ?A =
      [\<lparr>Index = 0,
        Expected = \<lparr>TimestampNs = 0, Direction = DirServerToClient, Opcode = 0x0012,
                    Payload = [0x00, 0x12, 0xAA]\<rparr>,
        Actual = Some \<lparr>TimestampNs = 0, Direction = DirServerToClient, Opcode = 0x0012,
                       Payload = [0x00, 0x12, 0xBB, 0xCC]\<rparr>,
        OpcodeMismatch = False, SizeDelta = 1\<rparr>,
       \<lparr>Index = 1, Expected = zero_PacketRecord,
        Actual = Some \<lparr>TimestampNs = 0, Direction = DirServerToClient, Opcode = 0x0099,
                       Payload = [0x00, 0x99]\<rparr>,
        OpcodeMismatch = False, SizeDelta = 0\<rparr>]"
    by (simp add: eval_compare TestComparePackets_expected_def TestComparePackets_actual_def)
  have split: "[] @ hd ?E # tl ?E = ?E"
    by (simp add: TestComparePackets_expected_def)
  have c1: ?c1
    by (simp add: TestComparePackets_expected_def)
  note T1 = ComparePackets_ignores_client_records [of ?E ?A "hd ?E" "[]" "tl ?E"]
  note T2 = ComparePackets_ignores_client_records [of ?E "take 1 ?A" "hd ?E" "[]" "tl ?E"]
  note T3 = ComparePackets_ignores_client_records [of "take 2 ?E" ?A "hd ?E" "[]" "tl ?E"]
  from T1 [THEN conjunct2, THEN conjunct1, THEN mp, OF c1, THEN conjunct1]
  have c2: ?c2
    unfolding split by simp
  have c3: ?c3
    unfolding ev1 by simp
  have m1: ?m1
    unfolding ev1 by simp
  have h1: ?h1
    unfolding ev1 by (simp add: TestComparePackets_expected_def)
  have h2: ?h2
    unfolding ev1 by (simp add: TestComparePackets_actual_def)
  note F1 = T1 [THEN conjunct2, THEN conjunct2, THEN bspec, OF m1]
  from F1 [THEN conjunct1, THEN mp, OF h1] have e1: ?e1 .
  from F1 [THEN conjunct2, THEN conjunct2, THEN conjunct1, THEN mp, OF h2] have a1: ?a1 .
  have m2: ?m2
    unfolding ev2 by simp
  have h3: ?h3
    unfolding ev2 by (simp add: TestComparePackets_actual_def)
  note F2 = T2 [THEN conjunct2, THEN conjunct2, THEN bspec, OF m2]
  from F2 [THEN conjunct2, THEN conjunct2, THEN conjunct2, THEN mp, OF h3] have a2: ?a2 .
  have m3: ?m3
    unfolding ev3 by simp
  have h4: ?h4
    unfolding ev3 by (simp add: TestComparePackets_expected_def)
  note F3 = T3 [THEN conjunct2, THEN conjunct2, THEN bspec, OF m3]
  from F3 [THEN conjunct2, THEN conjunct1, THEN mp, OF h4, THEN conjunct1] have e2: ?e2 .
  show ?thesis
    by (intro conjI c1 c2 c3 m1 h1 e1 h2 a1 m2 h3 a2 m3 h4 e2)
qed

text \<open>
  C8. Where, at a filtered index, the opcodes are equal and the payload lengths are equal,
  \<open>ComparePackets\<close> emits no diff with that index; the payload bytes are not looked at:
  two packets with opcode 0x0012 and three bytes that differ in the last byte give no
  diff.
\<close>

theorem ComparePackets_equal_length_no_diff:
  "(i < length (FilterByDirection expected DirServerToClient) \<and>
    i < length (FilterByDirection actual DirServerToClient) \<and>
    Opcode (FilterByDirection expected DirServerToClient ! i) =
      Opcode (FilterByDirection actual DirServerToClient ! i) \<and>
    length (Payload (FilterByDirection expected DirServerToClient ! i)) =
      length (Payload (FilterByDirection actual DirServerToClient ! i))
    \<longrightarrow>
    filter (\<lambda>d. Index d = i) (ComparePackets expected actual) = [])
   \<and>
   ComparePackets
     [\<lparr>TimestampNs = 0, Direction = DirServerToClient, Opcode = 0x0012,
       Payload = [0x00, 0x12, 0xAA]\<rparr>]
     [\<lparr>TimestampNs = 0, Direction = DirServerToClient, Opcode = 0x0012,
       Payload = [0x00, 0x12, 0xBB]\<rparr>] = []"
  (is "?general \<and> ?example")
proof -
  have g: ?general
    by (simp add: filter_ComparePackets_positional compare_step_def)
  have e: ?example
    by (simp add: eval_compare)
  from g e show ?thesis by blast
qed

theorem ComparePackets_equal_length_no_diff_witness:
  "(0::nat) < length (FilterByDirection
       [\<lparr>TimestampNs = 0, Direction = DirServerToClient, Opcode = 0x0012,
         Payload = [0x00, 0x12, 0xAA]\<rparr>] DirServerToClient) \<and>
   (0::nat) < length (FilterByDirection
       [\<lparr>TimestampNs = 0, Direction = DirServerToClient, Opcode = 0x0012,
         Payload = [0x00, 0x12, 0xBB]\<rparr>] DirServerToClient) \<and>
   Payload \<lparr>TimestampNs = 0, Direction = DirServerToClient, Opcode = 0x0012,
            Payload = [0x00, 0x12, 0xAA]\<rparr> \<noteq>
   Payload \<lparr>TimestampNs = 0, Direction = DirServerToClient, Opcode = 0x0012,
            Payload = [0x00, 0x12, 0xBB]\<rparr> \<and>
   filter (\<lambda>d. Index d = 0)
     (ComparePackets
        [\<lparr>TimestampNs = 0, Direction = DirServerToClient, Opcode = 0x0012,
          Payload = [0x00, 0x12, 0xAA]\<rparr>]
        [\<lparr>TimestampNs = 0, Direction = DirServerToClient, Opcode = 0x0012,
          Payload = [0x00, 0x12, 0xBB]\<rparr>]) = []"
  using ComparePackets_equal_length_no_diff
          [of 0 "[\<lparr>TimestampNs = 0, Direction = DirServerToClient, Opcode = 0x0012,
                    Payload = [0x00, 0x12, 0xAA]\<rparr>]"
                "[\<lparr>TimestampNs = 0, Direction = DirServerToClient, Opcode = 0x0012,
                    Payload = [0x00, 0x12, 0xBB]\<rparr>]"]
  by (simp add: FilterByDirection_def)

section \<open>Properties of the recording tap\<close>

text \<open>The opcode that \<open>record\<close> computes, as a number.\<close>

lemma or_shifted_bytes:
  fixes b0 b1 :: byte
  shows "(ucast b1 OR push_bit 8 (ucast b0) :: 16 word) = ucast b1 + push_bit 8 (ucast b0)"
proof (rule disjunctive_add [symmetric])
  fix n
  show "\<not> bit (ucast b1 :: 16 word) n \<or> \<not> bit (push_bit 8 (ucast b0) :: 16 word) n"
  proof (cases "n < 8")
    case True
    then show ?thesis by (simp add: bit_push_bit_iff)
  next
    case False
    then have "\<not> bit b1 n"
      using bit_imp_le_length [of b1 n] by auto
    then show ?thesis by (simp add: bit_ucast_iff)
  qed
qed

lemma BigEndian_Uint16_value:
  "BigEndian_Uint16 (b0 # b1 # rest) = word_of_nat (256 * unat b0 + unat b1)"
proof -
  have "BigEndian_Uint16 (b0 # b1 # rest) = ucast b1 + push_bit 8 (ucast b0)"
    by (simp add: BigEndian_Uint16_def or_shifted_bytes del: push_bit_eq_mult)
  also have "\<dots> = word_of_nat (256 * unat b0 + unat b1)"
    by (simp add: push_bit_eq_mult)
  finally show ?thesis .
qed

lemma bytes_below_65536: "256 * unat (b0 :: byte) + unat (b1 :: byte) < 65536"
proof -
  have "unat b0 < 256" "unat b1 < 256"
    using unsigned_less [of b0] unsigned_less [of b1] by simp_all
  then show ?thesis by simp
qed

lemma take_2: "2 \<le> length data \<Longrightarrow> take 2 data = data ! 0 # data ! 1 # []"
  by (cases data; cases "tl data") auto


lemma record_opcode_value:
  "(if length data \<ge> 2 then BigEndian_Uint16 (take 2 data) else 0) =
   word_of_nat (if 2 \<le> length data then 256 * unat (data ! 0) + unat (data ! 1) else 0)"
  by (simp add: take_2 BigEndian_Uint16_value del: of_nat_add of_nat_mult)

lemma RecordingConn_record_eq:
  "RecordingConn_record WritePacket now rc dir data =
     rc\<lparr>writer := snd (WritePacket (writer rc)
       \<lparr>TimestampNs = now, Direction = dir,
        Opcode = word_of_nat
          (if 2 \<le> length data then 256 * unat (data ! 0) + unat (data ! 1) else 0),
        Payload = data\<rparr>)\<rparr>"
  unfolding RecordingConn_record_def Let_def record_opcode_value
  by (simp add: split_beta del: of_nat_add of_nat_mult)

lemma record_opcode_bound:
  "(if 2 \<le> length (data :: byte list) then 256 * unat (data ! 0) + unat (data ! 1) else 0)
     < 2 ^ 16"
  using bytes_below_65536 [of "data ! 0" "data ! 1"] by simp

text \<open>
  C1. Whatever the direction, the record that \<open>record\<close> hands to the writer has as its
  opcode the number 256 * first byte + second byte of the raw payload when the payload
  has at least two bytes, and 0 when it is shorter; that number is below 65536, so the
  16-bit field holds it exactly. The record carries the payload unchanged.
\<close>

theorem RecordingConn_record_opcode:
  "RecordingConn_record WritePacket now rc dir data =
     rc\<lparr>writer := snd (WritePacket (writer rc)
       \<lparr>TimestampNs = now, Direction = dir,
        Opcode = word_of_nat
          (if 2 \<le> length data then 256 * unat (data ! 0) + unat (data ! 1) else 0),
        Payload = data\<rparr>)\<rparr>
   \<and> (if 2 \<le> length data then 256 * unat (data ! 0) + unat (data ! 1) else 0) < 2 ^ 16"
  using RecordingConn_record_eq record_opcode_bound by blast

text \<open>
  C3. \<open>ReadPacket\<close> asks the inner connection first. When that succeeds, the packet is
  handed to the writer as a client-to-server record and the bytes are returned unchanged
  with no error; when the inner connection returns an error, the same bytes and error
  are returned and the writer is left as it was.
\<close>

theorem RecordingConn_ReadPacket_records_on_success:
  "(inner_ReadPacket (inner rc) = ((data, None), c') \<longrightarrow>
      RecordingConn_ReadPacket inner_ReadPacket WritePacket now rc =
        ((data, None),
         rc\<lparr>inner := c',
            writer := snd (WritePacket (writer rc)
              \<lparr>TimestampNs = now, Direction = DirClientToServer,
               Opcode = word_of_nat
                 (if 2 \<le> length data then 256 * unat (data ! 0) + unat (data ! 1) else 0),
               Payload = data\<rparr>)\<rparr>))
   \<and>
   (inner_ReadPacket (inner rc) = ((data, Some e), c') \<longrightarrow>
      RecordingConn_ReadPacket inner_ReadPacket WritePacket now rc =
        ((data, Some e), rc\<lparr>inner := c'\<rparr>))"
  by (simp add: RecordingConn_ReadPacket_def RecordingConn_record_eq
        del: of_nat_add of_nat_mult)

text \<open>
  The connection of \<open>TestRecordingConnBasic\<close>: the first read succeeds and is recorded
  with opcode 0x0013, the second read returns \<open>io.EOF\<close> and leaves the writer alone.
\<close>

theorem RecordingConn_ReadPacket_records_on_success_witness:
  "mockConn_ReadPacket (inner TestRecordingConnBasic_rc) =
     (([0x00, 0x13, 0xDE, 0xAD], None),
      \<lparr>readData = [[0x00, 0x13, 0xDE, 0xAD]], readIdx = 1, sent = []\<rparr>) \<and>
   RecordingConn_ReadPacket mockConn_ReadPacket listWriter_WritePacket 1001
       TestRecordingConnBasic_rc =
     (([0x00, 0x13, 0xDE, 0xAD], None),
      \<lparr>inner = \<lparr>readData = [[0x00, 0x13, 0xDE, 0xAD]], readIdx = 1, sent = []\<rparr>,
       writer = [\<lparr>TimestampNs = 1001, Direction = DirClientToServer, Opcode = 0x0013,
                  Payload = [0x00, 0x13, 0xDE, 0xAD]\<rparr>],
       startNs = 1000\<rparr>) \<and>
   mockConn_ReadPacket \<lparr>readData = [[0x00, 0x13, 0xDE, 0xAD]], readIdx = 1, sent = []\<rparr> =
     (([], Some EOF), \<lparr>readData = [[0x00, 0x13, 0xDE, 0xAD]], readIdx = 1, sent = []\<rparr>) \<and>
   RecordingConn_ReadPacket mockConn_ReadPacket listWriter_WritePacket 1002
       \<lparr>inner = \<lparr>readData = [[0x00, 0x13, 0xDE, 0xAD]], readIdx = 1, sent = []\<rparr>,
        writer = [\<lparr>TimestampNs = 1001, Direction = DirClientToServer, Opcode = 0x0013,
                   Payload = [0x00, 0x13, 0xDE, 0xAD]\<rparr>],
        startNs = 1000\<rparr> =
     (([], Some EOF),
      \<lparr>inner = \<lparr>readData = [[0x00, 0x13, 0xDE, 0xAD]], readIdx = 1, sent = []\<rparr>,
       writer = [\<lparr>TimestampNs = 1001, Direction = DirClientToServer, Opcode = 0x0013,
                  Payload = [0x00, 0x13, 0xDE, 0xAD]\<rparr>],
       startNs = 1000\<rparr>)"
  using RecordingConn_ReadPacket_records_on_success
          [where inner_ReadPacket = mockConn_ReadPacket
             and WritePacket = listWriter_WritePacket and now = 1001
             and rc = TestRecordingConnBasic_rc and data = "[0x00, 0x13, 0xDE, 0xAD]"
             and c' = "\<lparr>readData = [[0x00, 0x13, 0xDE, 0xAD]], readIdx = 1, sent = []\<rparr>"
             and e = EOF]
        RecordingConn_ReadPacket_records_on_success
          [where inner_ReadPacket = mockConn_ReadPacket
             and WritePacket = listWriter_WritePacket and now = 1002
             and rc = "\<lparr>inner = \<lparr>readData = [[0x00, 0x13, 0xDE, 0xAD]], readIdx = 1, sent = []\<rparr>,
                       writer = [\<lparr>TimestampNs = 1001, Direction = DirClientToServer,
                                  Opcode = 0x0013, Payload = [0x00, 0x13, 0xDE, 0xAD]\<rparr>],
                       startNs = 1000\<rparr>"
             and data = "[]"
             and c' = "\<lparr>readData = [[0x00, 0x13, 0xDE, 0xAD]], readIdx = 1, sent = []\<rparr>"
             and e = EOF]
  by (simp add: mockConn_ReadPacket_def listWriter_WritePacket_def
        TestRecordingConnBasic_rc_def)

text \<open>
  C2, as the specification states it: the packet is appended to the trace before the
  transmission is handed to the inner connection. On a connection whose send fails, the
  error comes back and the trace holds no record afterwards: the state of the writer
  is not the one an append of the packet gives.
\<close>

theorem RecordingConn_SendPacket_append_first_counterexample:
  "RecordingConn_SendPacket failingConn_SendPacket listWriter_WritePacket 1001
       TestRecordingConnBasic_rc [0x00, 0x12, 0xBE, 0xEF] =
     (Some (ErrorString ''broken pipe''), TestRecordingConnBasic_rc) \<and>
   writer TestRecordingConnBasic_rc = [] \<and>
   writer (snd (RecordingConn_SendPacket failingConn_SendPacket listWriter_WritePacket 1001
                  TestRecordingConnBasic_rc [0x00, 0x12, 0xBE, 0xEF])) \<noteq>
     snd (listWriter_WritePacket (writer TestRecordingConnBasic_rc)
            \<lparr>TimestampNs = 1001, Direction = DirServerToClient, Opcode = 0x0012,
             Payload = [0x00, 0x12, 0xBE, 0xEF]\<rparr>)"
  by (simp add: RecordingConn_SendPacket_def failingConn_SendPacket_def
        listWriter_WritePacket_def TestRecordingConnBasic_rc_def)

text \<open>
  C2, amended. \<open>SendPacket\<close> hands the transmission to the inner connection first. When
  the send fails, its error is returned and nothing is appended. When the send succeeds,
  the packet is handed to the writer as a server-to-client record and no error is
  returned, whatever the writer answers.
\<close>

theorem RecordingConn_SendPacket_send_then_record:
  "(inner_SendPacket (inner rc) data = (Some e, c') \<longrightarrow>
      RecordingConn_SendPacket inner_SendPacket WritePacket now rc data =
        (Some e, rc\<lparr>inner := c'\<rparr>))
   \<and>
   (inner_SendPacket (inner rc) data = (None, c') \<longrightarrow>
      RecordingConn_SendPacket inner_SendPacket WritePacket now rc data =
        (None,
         rc\<lparr>inner := c',
            writer := snd (WritePacket (writer rc)
              \<lparr>TimestampNs = now, Direction = DirServerToClient,
               Opcode = word_of_nat
                 (if 2 \<le> length data then 256 * unat (data ! 0) + unat (data ! 1) else 0),
               Payload = data\<rparr>)\<rparr>))"
  by (simp add: RecordingConn_SendPacket_def RecordingConn_record_eq
        del: of_nat_add of_nat_mult)

text \<open>
  A send that fails, a send that succeeds and is recorded, and a send that succeeds
  while the append fails: the caller sees no error from the append.
\<close>

theorem RecordingConn_SendPacket_send_then_record_witness:
  "failingConn_SendPacket (inner TestRecordingConnBasic_rc) [0x00, 0x12, 0xBE, 0xEF] =
     (Some (ErrorString ''broken pipe''), inner TestRecordingConnBasic_rc) \<and>
   RecordingConn_SendPacket failingConn_SendPacket listWriter_WritePacket 1001
       TestRecordingConnBasic_rc [0x00, 0x12, 0xBE, 0xEF] =
     (Some (ErrorString ''broken pipe''), TestRecordingConnBasic_rc) \<and>
   mockConn_SendPacket (inner TestRecordingConnBasic_rc) [0x00, 0x12, 0xBE, 0xEF] =
     (None, \<lparr>readData = [[0x00, 0x13, 0xDE, 0xAD]], readIdx = 0,
             sent = [[0x00, 0x12, 0xBE, 0xEF]]\<rparr>) \<and>
   RecordingConn_SendPacket mockConn_SendPacket listWriter_WritePacket 1001
       TestRecordingConnBasic_rc [0x00, 0x12, 0xBE, 0xEF] =
     (None,
      \<lparr>inner = \<lparr>readData = [[0x00, 0x13, 0xDE, 0xAD]], readIdx = 0,
                 sent = [[0x00, 0x12, 0xBE, 0xEF]]\<rparr>,
       writer = [\<lparr>TimestampNs = 1001, Direction = DirServerToClient, Opcode = 0x0012,
                  Payload = [0x00, 0x12, 0xBE, 0xEF]\<rparr>],
       startNs = 1000\<rparr>) \<and>
   fst (failingWriter_WritePacket []
          \<lparr>TimestampNs = 1001, Direction = DirServerToClient, Opcode = 0x0012,
           Payload = [0x00, 0x12, 0xBE, 0xEF]\<rparr>) = Some (ErrorString ''short write'') \<and>
   RecordingConn_SendPacket mockConn_SendPacket failingWriter_WritePacket 1001
       TestRecordingConnBasic_rc [0x00, 0x12, 0xBE, 0xEF] =
     (None,
      \<lparr>inner = \<lparr>readData = [[0x00, 0x13, 0xDE, 0xAD]], readIdx = 0,
                 sent = [[0x00, 0x12, 0xBE, 0xEF]]\<rparr>,
       writer = [], startNs = 1000\<rparr>)"
  using RecordingConn_SendPacket_send_then_record
          [where inner_SendPacket = failingConn_SendPacket
             and WritePacket = listWriter_WritePacket and now = 1001
             and rc = TestRecordingConnBasic_rc and data = "[0x00, 0x12, 0xBE, 0xEF]"
             and e = "ErrorString ''broken pipe''"
             and c' = "inner TestRecordingConnBasic_rc"]
        RecordingConn_SendPacket_send_then_record
          [where inner_SendPacket = mockConn_SendPacket
             and WritePacket = listWriter_WritePacket and now = 1001
             and rc = TestRecordingConnBasic_rc and data = "[0x00, 0x12, 0xBE, 0xEF]"
             and e = "ErrorString ''broken pipe''"
             and c' = "\<lparr>readData = [[0x00, 0x13, 0xDE, 0xAD]], readIdx = 0,
                        sent = [[0x00, 0x12, 0xBE, 0xEF]]\<rparr>"]
        RecordingConn_SendPacket_send_then_record
          [where inner_SendPacket = mockConn_SendPacket
             and WritePacket = failingWriter_WritePacket and now = 1001
             and rc = TestRecordingConnBasic_rc and data = "[0x00, 0x12, 0xBE, 0xEF]"
             and e = "ErrorString ''broken pipe''"
             and c' = "\<lparr>readData = [[0x00, 0x13, 0xDE, 0xAD]], readIdx = 0,
                        sent = [[0x00, 0x12, 0xBE, 0xEF]]\<rparr>"]
  by (simp add: mockConn_SendPacket_def failingConn_SendPacket_def listWriter_WritePacket_def
        failingWriter_WritePacket_def TestRecordingConnBasic_rc_def)


section \<open>Properties of the stats mode\<close>

lemma readAllPackets_empty:
  "pending r = [] \<Longrightarrow> final r = EOF \<Longrightarrow> readAllPackets r = (([], None), r)"
  by (simp add: readAllPackets_def readAllPackets_loop.simps Reader_ReadPacket_def)

text \<open>
  C9, as the specification states it: on a trace without records the stats mode reports
  zero counts for all totals. On the empty capture the output is the single line
  \<open>Empty capture (0 packets)\<close>: it holds no formatted line at all, and the line of the
  per-direction totals with four zeros is not in it.
\<close>

theorem runStats_empty_reports_totals_counterexample:
  "runStats TestRunStatsEmpty_fs map_range_insertion sort_Slice_insertion
       PacketID_String_unknown ''test.mhfr'' =
     ([Println ''Empty capture (0 packets)''], Returned None) \<and>
   \<not> list_ex is_Printf
       (fst (runStats TestRunStatsEmpty_fs map_range_insertion sort_Slice_insertion
               PacketID_String_unknown ''test.mhfr'')) \<and>
   Printf (''C'' @ [CHR 0xE2, CHR 0x86, CHR 0x92] @ ''S: %d packets (%d bytes)  S'' @
           [CHR 0xE2, CHR 0x86, CHR 0x92] @ ''C: %d packets (%d bytes)\<newline>\<newline>'')
          [AInt 0, AInt 0, AInt 0, AInt 0]
     \<notin> set (fst (runStats TestRunStatsEmpty_fs map_range_insertion sort_Slice_insertion
                     PacketID_String_unknown ''test.mhfr''))"
  by (simp add: runStats_def openCapture_def readAllPackets_empty TestRunStatsEmpty_fs_def
        createTestCapture_def)

text \<open>
  C9, amended. On a capture that opens and holds no records, \<open>runStats\<close> prints exactly
  the line \<open>Empty capture (0 packets)\<close> and returns no error, whatever the map iteration,
  the sort and the name lookup are: the packet count 0 is the only total it reports,
  and it returns before the statistics and the session duration are computed, so
  that no duration is printed and the run does not panic.
\<close>

theorem runStats_empty_capture:
  "fs path = Opens r \<and> pending r = [] \<and> final r = EOF \<longrightarrow>
     runStats fs map_range sort_Slice PacketID_String path =
       ([Println ''Empty capture (0 packets)''], Returned None)"
  by (simp add: runStats_def openCapture_def readAllPackets_empty)

theorem runStats_empty_capture_witness:
  "TestRunStatsEmpty_fs ''test.mhfr'' = Opens (createTestCapture 1 []) \<and>
   pending (createTestCapture 1 []) = [] \<and>
   final (createTestCapture 1 []) = EOF \<and>
   runStats TestRunStatsEmpty_fs map_range_insertion sort_Slice_insertion
       PacketID_String_unknown ''test.mhfr'' =
     ([Println ''Empty capture (0 packets)''], Returned None)"
  using runStats_empty_capture
          [where fs = TestRunStatsEmpty_fs and path = "''test.mhfr''"
             and r = "createTestCapture 1 []" and map_range = map_range_insertion
             and sort_Slice = sort_Slice_insertion
             and PacketID_String = PacketID_String_unknown]
  by (simp add: createTestCapture_def TestRunStatsEmpty_fs_def)

end
